theory Spec2Isabelle
  imports Main "HOL-Library.Word" "HOL-Library.Signed_Division"
begin

unbundle bit_operations_syntax

section \<open>The 1-Wire bus driver seen from DS1820.c\<close>

text \<open>
  DS1820.c drives the sensor through the functions of OneWire.h (\<open>OW_Init\<close>,
  \<open>OW_Reset\<close>, \<open>OW_WeakPullUp\<close>, \<open>OW_StrongPullUp\<close>, \<open>OW_ROMMatch\<close>,
  \<open>OW_ByteWrite\<close>, \<open>OW_ByteRead\<close>, \<open>OW_CRCCalculate\<close>, \<open>OW_SearchFirst\<close>,
  \<open>OW_SearchNext\<close>). That driver is a separate library. Here the bus is a state that
  records every driver call in order and holds what the line will answer: the value of
  \<open>OW_ROMMatch\<close> for each address, the bytes handed to successive \<open>OW_ByteRead\<close>
  calls and the addresses handed to successive search calls. The CRC step
  \<open>OW_CRCCalculate\<close> and the constant \<open>OW_NO_DEV\<close> are parameters of the functions
  that use them.
\<close>

type_synonym uint8_t = "8 word"
type_synonym uint64_t = "64 word"
type_synonym crc_step = "uint8_t \<Rightarrow> uint8_t \<Rightarrow> uint8_t"

datatype ow_call =
    Call_Init
  | Call_Reset
  | Call_WeakPullUp
  | Call_StrongPullUp
  | Call_ROMMatch uint64_t
  | Call_ByteWrite uint8_t
  | Call_ByteRead
  | Call_SearchFirst int
  | Call_SearchNext

record ow_bus =
  calls :: "ow_call list"
  rom_match :: "uint64_t \<Rightarrow> int"
  rx :: "nat \<Rightarrow> uint8_t"
  rx_pos :: nat
  found :: "nat \<Rightarrow> uint64_t"
  found_pos :: nat

definition OW_Init :: "ow_bus \<Rightarrow> ow_bus" where
  "OW_Init b = b\<lparr>calls := calls b @ [Call_Init]\<rparr>"

definition OW_Reset :: "ow_bus \<Rightarrow> ow_bus" where
  "OW_Reset b = b\<lparr>calls := calls b @ [Call_Reset]\<rparr>"

definition OW_WeakPullUp :: "ow_bus \<Rightarrow> ow_bus" where
  "OW_WeakPullUp b = b\<lparr>calls := calls b @ [Call_WeakPullUp]\<rparr>"

definition OW_StrongPullUp :: "ow_bus \<Rightarrow> ow_bus" where
  "OW_StrongPullUp b = b\<lparr>calls := calls b @ [Call_StrongPullUp]\<rparr>"

definition OW_ROMMatch :: "uint64_t \<Rightarrow> ow_bus \<Rightarrow> int \<times> ow_bus" where
  "OW_ROMMatch iAddress b =
     (rom_match b iAddress, b\<lparr>calls := calls b @ [Call_ROMMatch iAddress]\<rparr>)"

definition OW_ByteWrite :: "uint8_t \<Rightarrow> ow_bus \<Rightarrow> ow_bus" where
  "OW_ByteWrite v b = b\<lparr>calls := calls b @ [Call_ByteWrite v]\<rparr>"

definition OW_ByteRead :: "ow_bus \<Rightarrow> uint8_t \<times> ow_bus" where
  "OW_ByteRead b =
     (rx b (rx_pos b), b\<lparr>calls := calls b @ [Call_ByteRead], rx_pos := Suc (rx_pos b)\<rparr>)"

definition OW_SearchFirst :: "int \<Rightarrow> ow_bus \<Rightarrow> uint64_t \<times> ow_bus" where
  "OW_SearchFirst family b =
     (found b (found_pos b),
      b\<lparr>calls := calls b @ [Call_SearchFirst family], found_pos := Suc (found_pos b)\<rparr>)"

definition OW_SearchNext :: "ow_bus \<Rightarrow> uint64_t \<times> ow_bus" where
  "OW_SearchNext b =
     (found b (found_pos b),
      b\<lparr>calls := calls b @ [Call_SearchNext], found_pos := Suc (found_pos b)\<rparr>)"

section \<open>Constants and types of DS1820.h and DS1820.c\<close>

datatype DS1820_State =
    DS1820_OK
  | DS1820_ERROR
  | DS1820_TEMP_ERROR
  | DS1820_PARASITE_POWER
  | DS1820_EXTERNAL_POWER

fun state_value :: "DS1820_State \<Rightarrow> int" where
  "state_value DS1820_OK = 0"
| "state_value DS1820_ERROR = 1"
| "state_value DS1820_TEMP_ERROR = - 10000"
| "state_value DS1820_PARASITE_POWER = 0x10"
| "state_value DS1820_EXTERNAL_POWER = 0x20"

abbreviation SCRATCHPAD_READ :: uint8_t where "SCRATCHPAD_READ \<equiv> 0xBE"
abbreviation SCRATCHPAD_STORE :: uint8_t where "SCRATCHPAD_STORE \<equiv> 0x48"
abbreviation SCRATCHPAD_WRITE :: uint8_t where "SCRATCHPAD_WRITE \<equiv> 0x4E"
abbreviation SCRATCHPAD_RECALL :: uint8_t where "SCRATCHPAD_RECALL \<equiv> 0xB8"
abbreviation POWER_SUPPLY_READ :: uint8_t where "POWER_SUPPLY_READ \<equiv> 0xB4"

abbreviation SCRATCHPAD_LENGTH :: nat where "SCRATCHPAD_LENGTH \<equiv> 9"
abbreviation SCRATCHPAD_CRC_POS :: nat where "SCRATCHPAD_CRC_POS \<equiv> SCRATCHPAD_LENGTH - 1"

text \<open>
  What C leaves undefined is a value of the model: a division by zero, and a store past
  the end of an array.
\<close>

datatype fault = DivideByZero | OutOfBounds

text \<open>
  \<open>int\<close> and \<open>int32_t\<close> are 32-bit two's complement: every arithmetic result is
  reduced into the range from \<open>- 2 ^ 31\<close> up to \<open>2 ^ 31 - 1\<close>. \<open>sdiv\<close> is C's
  division, truncating toward zero.
\<close>

definition int32 :: "int \<Rightarrow> int" where
  "int32 x = (x + 2 ^ 31) mod 2 ^ 32 - 2 ^ 31"

section \<open>Internal functions\<close>

text \<open>
  The loop of \<open>ScratchPadRead\<close>: \<open>i\<close> runs from its start value up to
  \<open>SCRATCHPAD_LENGTH\<close>; each round stores one byte read from the bus and, except at
  the CRC position, feeds it to the running CRC. \<open>Buffer\<close> is the array behind the
  pointer argument; a store at an index it does not have is the fault \<open>OutOfBounds\<close>.
\<close>

function ScratchPadRead_loop ::
  "crc_step \<Rightarrow> nat \<Rightarrow> uint8_t \<Rightarrow> uint8_t list \<Rightarrow> ow_bus
     \<Rightarrow> fault + uint8_t \<times> uint8_t list \<times> ow_bus"
where
  "ScratchPadRead_loop crc i iCRC Buffer b =
     (if i < SCRATCHPAD_LENGTH then
        (case OW_ByteRead b of (v, b') \<Rightarrow>
           if length Buffer \<le> i then Inl OutOfBounds
           else
             let Buffer' = Buffer[i := v];
                 iCRC' = (if i \<noteq> SCRATCHPAD_CRC_POS then crc iCRC (Buffer' ! i) else iCRC)
             in ScratchPadRead_loop crc (i + 1) iCRC' Buffer' b')
      else Inr (iCRC, Buffer, b))"
  by pat_completeness auto
termination
  by (relation "measure (\<lambda>(crc, i, iCRC, Buffer, b). SCRATCHPAD_LENGTH - i)") auto

declare ScratchPadRead_loop.simps [simp del]

text \<open>
  \<open>ScratchPadRead\<close> returns 0 if the CRC matches and 1 if it does not, together with
  the filled buffer.
\<close>

definition ScratchPadRead ::
  "crc_step \<Rightarrow> uint8_t list \<Rightarrow> ow_bus \<Rightarrow> fault + uint8_t \<times> uint8_t list \<times> ow_bus"
where
  "ScratchPadRead crc Buffer b =
     (case ScratchPadRead_loop crc 0 0 Buffer (OW_ByteWrite SCRATCHPAD_READ b) of
        Inl f \<Rightarrow> Inl f
      | Inr (iCRC, Buffer', b') \<Rightarrow>
          Inr ((if iCRC \<noteq> Buffer' ! SCRATCHPAD_CRC_POS then 1 else 0), Buffer', b'))"

definition ScratchPadWrite :: "uint8_t \<Rightarrow> uint8_t \<Rightarrow> ow_bus \<Rightarrow> ow_bus" where
  "ScratchPadWrite iThresholdHigh iThresholdLow b =
     OW_ByteWrite iThresholdLow (OW_ByteWrite iThresholdHigh (OW_ByteWrite SCRATCHPAD_WRITE b))"

definition ScratchPadStore :: "ow_bus \<Rightarrow> ow_bus" where
  "ScratchPadStore b = OW_ByteWrite SCRATCHPAD_STORE b"

definition ScratchPadRecall :: "ow_bus \<Rightarrow> ow_bus" where
  "ScratchPadRecall b = OW_ByteWrite SCRATCHPAD_RECALL b"

definition PowerSupplyType :: "ow_bus \<Rightarrow> DS1820_State \<times> ow_bus" where
  "PowerSupplyType b =
     (case OW_ByteRead (OW_ByteWrite POWER_SUPPLY_READ b) of
        (v, b') \<Rightarrow> ((if v \<noteq> 0 then DS1820_EXTERNAL_POWER else DS1820_PARASITE_POWER), b'))"

definition TemperatureConvert :: "ow_bus \<Rightarrow> ow_bus" where
  "TemperatureConvert b = OW_ByteWrite 0x44 b"

section \<open>Public functions\<close>

definition DS1820_Init :: "ow_bus \<Rightarrow> ow_bus" where
  "DS1820_Init b = OW_Reset (OW_Init b)"

text \<open>\<open>OW_NO_DEV\<close> is a constant of OneWire.h: the first parameter.\<close>

definition DS1820_TemperatureConvert :: "int \<Rightarrow> uint64_t \<Rightarrow> ow_bus \<Rightarrow> DS1820_State \<times> ow_bus" where
  "DS1820_TemperatureConvert OW_NO_DEV iAddress b =
     (case OW_ROMMatch iAddress (OW_WeakPullUp b) of (m, b1) \<Rightarrow>
        if m = OW_NO_DEV then (DS1820_ERROR, b1)
        else (DS1820_OK, OW_StrongPullUp (TemperatureConvert b1)))"

text \<open>
  The arithmetic of \<open>DS1820_TemperatureGet\<close> on a scratchpad that has been read
  (its two calculation steps and the final division).
\<close>

definition TemperatureGet_calc :: "uint8_t list \<Rightarrow> fault + int" where
  "TemperatureGet_calc iSPad =
     (let iTemp = (if iSPad ! 1 = 0 then int32 (uint (iSPad ! 0) * 500)
                   else int32 (uint (iSPad ! 0) * (- 500)))
      in if iSPad ! 7 = 0 then Inl DivideByZero
         else
           let iTemp' =
                 int32 (iTemp + int32 (- 250 +
                   int32 (int32 (1000 * int32 (uint (iSPad ! 7) - uint (iSPad ! 6)))
                          sdiv uint (iSPad ! 7))))
           in Inr (int32 (iTemp' sdiv 100)))"

text \<open>
  The local array \<open>iSPad\<close> of \<open>SCRATCHPAD_LENGTH\<close> bytes is uninitialised in C;
  \<open>ScratchPadRead\<close> stores into each of its cells before any is read. It starts here as
  zeros.
\<close>

definition DS1820_TemperatureGet :: "crc_step \<Rightarrow> uint64_t \<Rightarrow> ow_bus \<Rightarrow> fault + int \<times> ow_bus" where
  "DS1820_TemperatureGet crc iAddress b =
     (case OW_ROMMatch iAddress (OW_WeakPullUp b) of (m, b1) \<Rightarrow>
        if m \<noteq> 0 then Inr (state_value DS1820_TEMP_ERROR, b1)
        else
          (case ScratchPadRead crc (replicate SCRATCHPAD_LENGTH 0) b1 of
             Inl f \<Rightarrow> Inl f
           | Inr (r, iSPad, b2) \<Rightarrow>
               if r \<noteq> 0 then Inr (state_value DS1820_TEMP_ERROR, b2)
               else
                 (case TemperatureGet_calc iSPad of
                    Inl f \<Rightarrow> Inl f
                  | Inr t \<Rightarrow> Inr (t, b2))))"

text \<open>
  The conversion of \<open>DS1820_TemperatureAlarmSet\<close> from degrees to the threshold byte
  (the same expression for \<open>iHigh\<close> and \<open>iLow\<close>), and the conversion of
  \<open>DS1820_TemperatureAlarmGet\<close> from a scratchpad byte to degrees.
\<close>

definition AlarmEncode :: "int \<Rightarrow> uint8_t" where
  "AlarmEncode iHigh =
     (if iHigh \<ge> 0 then (word_of_int iHigh :: uint8_t) AND 0x7F
      else 0x80 OR ((word_of_int iHigh :: uint8_t) AND 0x7F))"

definition AlarmDecode :: "uint8_t \<Rightarrow> int" where
  "AlarmDecode v = (if v AND 0x80 \<noteq> 0 then - uint (v AND 0x7F) else uint (v AND 0x7F))"

definition DS1820_TemperatureAlarmSet :: "uint64_t \<Rightarrow> int \<Rightarrow> int \<Rightarrow> ow_bus \<Rightarrow> DS1820_State \<times> ow_bus" where
  "DS1820_TemperatureAlarmSet iAddress iHigh iLow b =
     (case OW_ROMMatch iAddress (OW_WeakPullUp b) of (m, b1) \<Rightarrow>
        if m \<noteq> 0 then (DS1820_ERROR, b1)
        else
          let iConvHigh = AlarmEncode iHigh;
              iConvLow = AlarmEncode iLow
          in (DS1820_OK, ScratchPadWrite iConvHigh iConvLow b1))"

text \<open>
  \<open>iHigh\<close> and \<open>iLow\<close> are the values behind the two output pointers at the call;
  the result carries the values behind them at the return.
\<close>

definition DS1820_TemperatureAlarmGet ::
  "crc_step \<Rightarrow> uint64_t \<Rightarrow> int \<Rightarrow> int \<Rightarrow> ow_bus
     \<Rightarrow> fault + DS1820_State \<times> int \<times> int \<times> ow_bus"
where
  "DS1820_TemperatureAlarmGet crc iAddress iHigh iLow b =
     (case OW_ROMMatch iAddress (OW_WeakPullUp b) of (m, b1) \<Rightarrow>
        if m \<noteq> 0 then Inr (DS1820_ERROR, iHigh, iLow, b1)
        else
          (case ScratchPadRead crc (replicate SCRATCHPAD_LENGTH 0) b1 of
             Inl f \<Rightarrow> Inl f
           | Inr (r, iSPad, b2) \<Rightarrow>
               if r \<noteq> 0 then Inr (DS1820_ERROR, iHigh, iLow, b2)
               else Inr (DS1820_OK, AlarmDecode (iSPad ! 3), AlarmDecode (iSPad ! 4), b2)))"

definition DS1820_ConfigurationStore :: "uint64_t \<Rightarrow> ow_bus \<Rightarrow> DS1820_State \<times> ow_bus" where
  "DS1820_ConfigurationStore iAddress b =
     (case OW_ROMMatch iAddress (OW_WeakPullUp b) of (m, b1) \<Rightarrow>
        if m \<noteq> 0 then (DS1820_ERROR, b1)
        else (DS1820_OK, OW_StrongPullUp (ScratchPadStore b1)))"

definition DS1820_ConfigurationRecall :: "uint64_t \<Rightarrow> ow_bus \<Rightarrow> DS1820_State \<times> ow_bus" where
  "DS1820_ConfigurationRecall iAddress b =
     (case OW_ROMMatch iAddress (OW_WeakPullUp b) of (m, b1) \<Rightarrow>
        if m \<noteq> 0 then (DS1820_ERROR, b1)
        else (DS1820_OK, ScratchPadRecall b1))"

definition DS1820_PowerTypeGet :: "uint64_t \<Rightarrow> ow_bus \<Rightarrow> DS1820_State \<times> ow_bus" where
  "DS1820_PowerTypeGet iAddress b =
     (case OW_ROMMatch iAddress (OW_WeakPullUp b) of (m, b1) \<Rightarrow>
        if m \<noteq> 0 then (DS1820_ERROR, b1)
        else PowerSupplyType b1)"

text \<open>
  The loop of \<open>DS1820_Search\<close>. \<open>Addresses\<close> is the caller's array; a store at an
  index it does not have is the fault \<open>OutOfBounds\<close>.
\<close>

function Search_loop ::
  "uint64_t \<Rightarrow> int \<Rightarrow> int \<Rightarrow> uint64_t list \<Rightarrow> ow_bus \<Rightarrow> fault + int \<times> uint64_t list \<times> ow_bus"
where
  "Search_loop iAddress iCount iMaxDevices Addresses b =
     (if iAddress \<noteq> 0 \<and> iCount < iMaxDevices then
        (let iCount' = iCount + 1 in
           if iCount' - 1 < 0 \<or> int (length Addresses) \<le> iCount' - 1 then Inl OutOfBounds
           else
             (case OW_SearchNext b of (iAddress', b') \<Rightarrow>
                Search_loop iAddress' iCount' iMaxDevices
                  (Addresses[nat (iCount' - 1) := iAddress]) b'))
      else Inr (iCount, Addresses, b))"
  by pat_completeness auto
termination
  by (relation "measure (\<lambda>(iAddress, iCount, iMaxDevices, Addresses, b). nat (iMaxDevices - iCount))")
     auto

declare Search_loop.simps [simp del]

definition DS1820_Search :: "uint64_t list \<Rightarrow> int \<Rightarrow> ow_bus \<Rightarrow> fault + int \<times> uint64_t list \<times> ow_bus" where
  "DS1820_Search Addresses iMaxDevices b =
     (case OW_SearchFirst 0 (OW_WeakPullUp b) of (iAddress, b1) \<Rightarrow>
        (case Search_loop iAddress 0 iMaxDevices Addresses b1 of
           Inl f \<Rightarrow> Inl f
         | Inr (iCount, Addresses', b2) \<Rightarrow> Inr (iCount, Addresses', OW_Reset b2)))"


section \<open>Notions used to state the properties\<close>

text \<open>The nine bytes the line hands to the next nine \<open>OW_ByteRead\<close> calls.\<close>

definition line_bytes :: "ow_bus \<Rightarrow> uint8_t list" where
  "line_bytes b = map (\<lambda>k. rx b (rx_pos b + k)) [0..<SCRATCHPAD_LENGTH]"

text \<open>
  The CRC check as the specification words it: the CRC accumulated over bytes 0 to 7 in
  order, from accumulator 0, differs from byte 8.
\<close>

definition crc_mismatch :: "crc_step \<Rightarrow> uint8_t list \<Rightarrow> bool" where
  "crc_mismatch crc sp \<longleftrightarrow> foldl crc 0 (take 8 sp) \<noteq> sp ! 8"

text \<open>
  The temperature as the specification words it, on unbounded integers: base count,
  high-resolution correction, then the division by 100, both divisions truncating.
\<close>

definition spec_temperature :: "uint8_t list \<Rightarrow> int" where
  "spec_temperature sp =
     ((if sp ! 1 = 0 then uint (sp ! 0) * 500 else uint (sp ! 0) * (- 500))
      + (- 250 + (1000 * (uint (sp ! 7) - uint (sp ! 6))) sdiv uint (sp ! 7))) sdiv 100"

text \<open>
  The bus after \<open>ScratchPadRead\<close> alone; after the pull-up and the device selection;
  and after both and the scratchpad read.
\<close>

definition bus_after_scratchpad :: "ow_bus \<Rightarrow> ow_bus" where
  "bus_after_scratchpad b =
     b\<lparr>calls := calls b @ Call_ByteWrite SCRATCHPAD_READ # replicate SCRATCHPAD_LENGTH Call_ByteRead,
       rx_pos := rx_pos b + SCRATCHPAD_LENGTH\<rparr>"

definition bus_after_select :: "uint64_t \<Rightarrow> ow_bus \<Rightarrow> ow_bus" where
  "bus_after_select iAddress b = b\<lparr>calls := calls b @ [Call_WeakPullUp, Call_ROMMatch iAddress]\<rparr>"

definition bus_after_read :: "uint64_t \<Rightarrow> ow_bus \<Rightarrow> ow_bus" where
  "bus_after_read iAddress b =
     b\<lparr>calls := calls b @ [Call_WeakPullUp, Call_ROMMatch iAddress, Call_ByteWrite SCRATCHPAD_READ]
                 @ replicate SCRATCHPAD_LENGTH Call_ByteRead,
       rx_pos := rx_pos b + SCRATCHPAD_LENGTH\<rparr>"

text \<open>The driver calls a function added to the bus, and the calls that are searches.\<close>

definition new_calls :: "ow_bus \<Rightarrow> ow_bus \<Rightarrow> ow_call list" where
  "new_calls b b' = drop (length (calls b)) (calls b')"

fun is_search_call :: "ow_call \<Rightarrow> bool" where
  "is_search_call (Call_SearchFirst family) = True"
| "is_search_call Call_SearchNext = True"
| "is_search_call c = False"

text \<open>
  The claim on a search with capacity 0, as the specification words it: an empty result,
  the array untouched, and no search call among the calls made.
\<close>

definition search_zero_silent :: "uint64_t list \<Rightarrow> ow_bus \<Rightarrow> bool" where
  "search_zero_silent Addresses b =
     (case DS1820_Search Addresses 0 b of
        Inl f \<Rightarrow> False
      | Inr (iCount, Addresses', b') \<Rightarrow>
          iCount = 0 \<and> Addresses' = Addresses \<and> \<not> list_ex is_search_call (new_calls b b'))"

text \<open>
  Buses and a CRC step for concrete runs: a fresh bus on which every selection answers
  \<open>m\<close>, the line delivers \<open>bytes\<close> and then stays high, and every search answers
  \<open>addr\<close>; and exclusive-or in the place of the driver's CRC step.
\<close>

definition bus_with :: "int \<Rightarrow> uint8_t list \<Rightarrow> uint64_t \<Rightarrow> ow_bus" where
  "bus_with m bytes addr =
     \<lparr>calls = [], rom_match = (\<lambda>a. m),
      rx = (\<lambda>i. if i < length bytes then bytes ! i else 0xFF), rx_pos = 0,
      found = (\<lambda>i. addr), found_pos = 0\<rparr>"

definition xor_step :: crc_step where
  "xor_step acc v = acc XOR v"

text \<open>
  Scratchpads for concrete runs: a reading with its byte 8 matching under \<open>xor_step\<close>,
  the same with byte 8 corrupted, and the line held low.
\<close>

definition sample_pad :: "uint8_t list" where
  "sample_pad = [0x91, 0x01, 0x4B, 0x46, 0x7F, 0xFF, 0x0C, 0x10, 0x01]"

definition corrupt_pad :: "uint8_t list" where
  "corrupt_pad = [0x91, 0x01, 0x4B, 0x46, 0x7F, 0xFF, 0x0C, 0x10, 0xFE]"

definition zero_pad :: "uint8_t list" where
  "zero_pad = [0, 0, 0, 0, 0, 0, 0, 0, 0]"


section \<open>The scratchpad read\<close>

lemma line_bytes_unfold:
  "line_bytes b =
     [rx b (rx_pos b), rx b (rx_pos b + 1), rx b (rx_pos b + 2), rx b (rx_pos b + 3),
      rx b (rx_pos b + 4), rx b (rx_pos b + 5), rx b (rx_pos b + 6), rx b (rx_pos b + 7),
      rx b (rx_pos b + 8)]"
  by (simp add: line_bytes_def upt_rec numeral_eq_Suc)

lemma length_line_bytes: "length (line_bytes b) = SCRATCHPAD_LENGTH"
  by (simp add: line_bytes_def)

lemma line_bytes_calls: "line_bytes (b\<lparr>calls := cs\<rparr>) = line_bytes b"
  by (simp add: line_bytes_def)

lemma nine_cells:
  assumes "length (xs :: 'a list) = SCRATCHPAD_LENGTH"
  obtains a0 a1 a2 a3 a4 a5 a6 a7 a8 where "xs = [a0, a1, a2, a3, a4, a5, a6, a7, a8]"
  using assms by (auto simp: length_Suc_conv numeral_eq_Suc)

lemma ScratchPadRead_loop_round:
  "i < SCRATCHPAD_LENGTH \<Longrightarrow> i < length Buffer \<Longrightarrow>
   ScratchPadRead_loop crc i iCRC Buffer b =
     ScratchPadRead_loop crc (Suc i)
       (if i \<noteq> SCRATCHPAD_CRC_POS then crc iCRC (Buffer[i := rx b (rx_pos b)] ! i) else iCRC)
       (Buffer[i := rx b (rx_pos b)])
       (b\<lparr>calls := calls b @ [Call_ByteRead], rx_pos := Suc (rx_pos b)\<rparr>)"
  by (subst ScratchPadRead_loop.simps) (simp add: OW_ByteRead_def Let_def)

lemma ScratchPadRead_loop_exit:
  "ScratchPadRead_loop crc (Suc (Suc (Suc (Suc (Suc (Suc (Suc (Suc (Suc 0))))))))) iCRC Buffer b
     = Inr (iCRC, Buffer, b)"
  by (subst ScratchPadRead_loop.simps) simp

text \<open>
  Nine rounds: the buffer holds the nine bytes of the line, whatever it held before, and
  the CRC has taken in the first eight.
\<close>

lemma ScratchPadRead_loop_result:
  assumes "length Buffer = SCRATCHPAD_LENGTH"
  shows "ScratchPadRead_loop crc 0 iCRC Buffer b =
     Inr (foldl crc iCRC (take 8 (line_bytes b)), line_bytes b,
          b\<lparr>calls := calls b @ replicate SCRATCHPAD_LENGTH Call_ByteRead,
            rx_pos := rx_pos b + SCRATCHPAD_LENGTH\<rparr>)"
proof -
  from assms obtain a0 a1 a2 a3 a4 a5 a6 a7 a8
    where cells: "Buffer = [a0, a1, a2, a3, a4, a5, a6, a7, a8]"
    by (rule nine_cells)
  show ?thesis
    unfolding cells line_bytes_unfold
    by (simp add: ScratchPadRead_loop_round ScratchPadRead_loop_exit numeral_eq_Suc)
qed

lemma ScratchPadRead_result:
  assumes "length Buffer = SCRATCHPAD_LENGTH"
  shows "ScratchPadRead crc Buffer b =
     Inr ((if crc_mismatch crc (line_bytes b) then 1 else 0), line_bytes b,
          bus_after_scratchpad b)"
  by (simp add: ScratchPadRead_def ScratchPadRead_loop_result [OF assms] OW_ByteWrite_def
      crc_mismatch_def line_bytes_calls bus_after_scratchpad_def)

text \<open>An array with fewer cells than the scratchpad is overrun.\<close>

lemma ScratchPadRead_overrun: "ScratchPadRead crc [] b = Inl OutOfBounds"
  by (simp add: ScratchPadRead_def ScratchPadRead_loop.simps [of _ 0])

lemma select_result:
  "OW_ROMMatch iAddress (OW_WeakPullUp b) = (rom_match b iAddress, bus_after_select iAddress b)"
  by (simp add: OW_ROMMatch_def OW_WeakPullUp_def bus_after_select_def)

lemma read_after_select:
  "ScratchPadRead crc (replicate SCRATCHPAD_LENGTH 0) (bus_after_select iAddress b) =
     Inr ((if crc_mismatch crc (line_bytes b) then 1 else 0), line_bytes b,
          bus_after_read iAddress b)"
  by (simp add: ScratchPadRead_result bus_after_select_def bus_after_read_def line_bytes_calls
      bus_after_scratchpad_def)

section \<open>The arithmetic of the temperature\<close>

lemma int32_id: "- (2 ^ 31) \<le> x \<Longrightarrow> x < 2 ^ 31 \<Longrightarrow> int32 x = x"
  by (simp add: int32_def)

lemma int32_small: "\<bar>x\<bar> \<le> 382750 \<Longrightarrow> int32 x = x"
  by (rule int32_id) simp_all

lemma uint8_range: "0 \<le> uint (v :: uint8_t) \<and> uint v \<le> 255"
  using uint_bounded [of v] by simp

lemma sdiv_abs_le: "\<bar>(a :: int) sdiv b\<bar> \<le> \<bar>a\<bar>"
  using sdiv_int_range [of a b] by auto

lemma sdiv_100_bound: "\<bar>x :: int\<bar> \<le> 382750 \<Longrightarrow> \<bar>x sdiv 100\<bar> \<le> 3827"
  by (simp add: signed_divide_int_def abs_mult sgn_if) arith

lemma base_bound:
  fixes b0 :: uint8_t
  shows "\<bar>uint b0 * 500\<bar> \<le> 127500" and "\<bar>uint b0 * (- 500)\<bar> \<le> 127500"
  using uint8_range [of b0] by linarith+

lemma corr_bound:
  fixes b6 b7 :: uint8_t
  shows "\<bar>uint b7 - uint b6\<bar> \<le> 255"
    and "\<bar>1000 * (uint b7 - uint b6)\<bar> \<le> 255000"
    and "\<bar>(1000 * (uint b7 - uint b6)) sdiv uint b7\<bar> \<le> 255000"
    and "\<bar>- 250 + (1000 * (uint b7 - uint b6)) sdiv uint b7\<bar> \<le> 255250"
proof -
  show d: "\<bar>uint b7 - uint b6\<bar> \<le> 255"
    using uint8_range [of b6] uint8_range [of b7] by linarith
  then show m: "\<bar>1000 * (uint b7 - uint b6)\<bar> \<le> 255000" by simp
  with sdiv_abs_le [of "1000 * (uint b7 - uint b6)" "uint b7"]
  show q: "\<bar>(1000 * (uint b7 - uint b6)) sdiv uint b7\<bar> \<le> 255000" by linarith
  then show "\<bar>- 250 + (1000 * (uint b7 - uint b6)) sdiv uint b7\<bar> \<le> 255250" by linarith
qed

text \<open>No 32-bit operation of the calculation overflows: it is the formula on integers.\<close>

lemma TemperatureGet_calc_eq:
  assumes "sp ! 7 \<noteq> 0"
  shows "TemperatureGet_calc sp = Inr (spec_temperature sp)"
proof -
  define b0 where "b0 = sp ! 0"
  define b6 where "b6 = sp ! 6"
  define b7 where "b7 = sp ! 7"
  define q where "q = (1000 * (uint b7 - uint b6)) sdiv uint b7"
  define base where "base = (if sp ! 1 = 0 then uint b0 * 500 else uint b0 * (- 500))"
  note bb = base_bound [of b0]
  note cb = corr_bound [of b7 b6, folded q_def]
  have base: "\<bar>base\<bar> \<le> 127500" using bb by (simp add: base_def)
  have tot: "\<bar>base + (- 250 + q)\<bar> \<le> 382750" using base cb(4) by linarith
  have fin: "\<bar>(base + (- 250 + q)) sdiv 100\<bar> \<le> 3827" using tot by (rule sdiv_100_bound)
  have e1: "(if sp ! 1 = 0 then int32 (uint b0 * 500) else int32 (uint b0 * (- 500))) = base"
    using bb by (simp add: base_def int32_small)
  have e2: "int32 (uint b7 - uint b6) = uint b7 - uint b6" using cb(1) by (simp add: int32_small)
  have e3: "int32 (1000 * (uint b7 - uint b6)) = 1000 * (uint b7 - uint b6)"
    using cb(2) by (simp add: int32_small)
  have e4: "int32 q = q" using cb(3) by (simp add: int32_small)
  have e5: "int32 (- 250 + q) = - 250 + q" using cb(4) by (simp add: int32_small)
  have e6: "int32 (base + (- 250 + q)) = base + (- 250 + q)" using tot by (rule int32_small)
  have e7: "int32 ((base + (- 250 + q)) sdiv 100) = (base + (- 250 + q)) sdiv 100"
    using fin by (simp add: int32_small)
  have "TemperatureGet_calc sp = Inr ((base + (- 250 + q)) sdiv 100)"
    using assms
    unfolding TemperatureGet_calc_def Let_def b0_def [symmetric] b6_def [symmetric] b7_def [symmetric]
    by (simp only: e1 e2 e3 q_def [symmetric] e4 e5 e6 e7 if_False)
  then show ?thesis
    by (simp add: spec_temperature_def base_def q_def b0_def b6_def b7_def)
qed

lemma spec_temperature_range: "\<bar>spec_temperature sp\<bar> \<le> 3827"
proof -
  let ?q = "(1000 * (uint (sp ! 7) - uint (sp ! 6))) sdiv uint (sp ! 7)"
  let ?base = "if sp ! 1 = 0 then uint (sp ! 0) * 500 else uint (sp ! 0) * (- 500)"
  note bb = base_bound [of "sp ! 0"]
  note cb = corr_bound [of "sp ! 7" "sp ! 6"]
  have "\<bar>?base\<bar> \<le> 127500"
    using bb by simp
  with cb(4) have "\<bar>?base + (- 250 + ?q)\<bar> \<le> 382750"
    by linarith
  then show ?thesis unfolding spec_temperature_def by (rule sdiv_100_bound)
qed

lemma TemperatureGet_calc_zero: "sp ! 7 = 0 \<Longrightarrow> TemperatureGet_calc sp = Inl DivideByZero"
  by (simp add: TemperatureGet_calc_def Let_def)

section \<open>The paths of the public functions\<close>

lemma TemperatureGet_no_device:
  "rom_match b iAddress \<noteq> 0 \<Longrightarrow>
   DS1820_TemperatureGet crc iAddress b =
     Inr (state_value DS1820_TEMP_ERROR, bus_after_select iAddress b)"
  by (simp add: DS1820_TemperatureGet_def select_result)

lemma TemperatureGet_bad_crc:
  "rom_match b iAddress = 0 \<Longrightarrow> crc_mismatch crc (line_bytes b) \<Longrightarrow>
   DS1820_TemperatureGet crc iAddress b =
     Inr (state_value DS1820_TEMP_ERROR, bus_after_read iAddress b)"
  by (simp add: DS1820_TemperatureGet_def select_result read_after_select)

lemma TemperatureGet_good_crc:
  "rom_match b iAddress = 0 \<Longrightarrow> \<not> crc_mismatch crc (line_bytes b) \<Longrightarrow>
   DS1820_TemperatureGet crc iAddress b =
     (case TemperatureGet_calc (line_bytes b) of
        Inl f \<Rightarrow> Inl f
      | Inr t \<Rightarrow> Inr (t, bus_after_read iAddress b))"
  by (simp add: DS1820_TemperatureGet_def select_result read_after_select)

text \<open>
  A scratchpad that passes the CRC check with byte 7 zero takes the calculation to its
  division with a zero divisor.
\<close>

lemma TemperatureGet_divides_by_zero:
  "rom_match b iAddress = 0 \<Longrightarrow> \<not> crc_mismatch crc (line_bytes b) \<Longrightarrow> line_bytes b ! 7 = 0 \<Longrightarrow>
   DS1820_TemperatureGet crc iAddress b = Inl DivideByZero"
  by (simp add: TemperatureGet_good_crc TemperatureGet_calc_zero)

lemma AlarmGet_no_device:
  "rom_match b iAddress \<noteq> 0 \<Longrightarrow>
   DS1820_TemperatureAlarmGet crc iAddress iHigh iLow b =
     Inr (DS1820_ERROR, iHigh, iLow, bus_after_select iAddress b)"
  by (simp add: DS1820_TemperatureAlarmGet_def select_result)

lemma AlarmGet_bad_crc:
  "rom_match b iAddress = 0 \<Longrightarrow> crc_mismatch crc (line_bytes b) \<Longrightarrow>
   DS1820_TemperatureAlarmGet crc iAddress iHigh iLow b =
     Inr (DS1820_ERROR, iHigh, iLow, bus_after_read iAddress b)"
  by (simp add: DS1820_TemperatureAlarmGet_def select_result read_after_select)

lemma AlarmGet_good_crc:
  "rom_match b iAddress = 0 \<Longrightarrow> \<not> crc_mismatch crc (line_bytes b) \<Longrightarrow>
   DS1820_TemperatureAlarmGet crc iAddress iHigh iLow b =
     Inr (DS1820_OK, AlarmDecode (line_bytes b ! 3), AlarmDecode (line_bytes b ! 4),
          bus_after_read iAddress b)"
  by (simp add: DS1820_TemperatureAlarmGet_def select_result read_after_select)

lemma AlarmDecode_range: "- 127 \<le> AlarmDecode v \<and> AlarmDecode v \<le> 127"
proof -
  have "v AND 0x7F \<le> 0x7F" by (rule word_and_le1)
  then have "uint (v AND 0x7F) \<le> 127" by (simp add: word_le_def)
  moreover have "0 \<le> uint (v AND 0x7F)" by simp
  ultimately have magnitude: "0 \<le> uint (v AND 0x7F) \<and> uint (v AND 0x7F) \<le> 127" by simp
  show ?thesis
  proof (cases "v AND 0x80 \<noteq> 0")
    case True
    then have "AlarmDecode v = - uint (v AND 0x7F)" by (simp add: AlarmDecode_def)
    with magnitude show ?thesis by linarith
  next
    case False
    then have "AlarmDecode v = uint (v AND 0x7F)" by (simp add: AlarmDecode_def)
    with magnitude show ?thesis by linarith
  qed
qed


lemma Convert_device_present:
  "rom_match b iAddress \<noteq> OW_NO_DEV \<Longrightarrow>
   DS1820_TemperatureConvert OW_NO_DEV iAddress b =
     (DS1820_OK,
      b\<lparr>calls := calls b @ [Call_WeakPullUp, Call_ROMMatch iAddress, Call_ByteWrite 0x44,
                              Call_StrongPullUp]\<rparr>)"
  by (simp add: DS1820_TemperatureConvert_def select_result TemperatureConvert_def
      OW_ByteWrite_def OW_StrongPullUp_def bus_after_select_def)

lemma new_calls_after_select:
  "new_calls b (bus_after_select iAddress b) = [Call_WeakPullUp, Call_ROMMatch iAddress]"
  by (simp add: new_calls_def bus_after_select_def)

section \<open>The threshold conversions\<close>

lemma and_7F: "(w :: uint8_t) AND 0x7F = take_bit 7 w"
proof -
  have "(0x7F :: uint8_t) = mask 7" by (simp add: mask_eq_exp_minus_1)
  then show ?thesis by (simp add: take_bit_eq_mask)
qed

lemma uint_and_7F: "uint ((w :: uint8_t) AND 0x7F) = uint w mod 128"
  by (simp add: and_7F take_bit_eq_mod uint_mod)

lemma and_7F_and_80: "((w :: uint8_t) AND 0x7F) AND 0x80 = 0"
proof -
  have "(w AND 0x7F) AND 0x80 = w AND (0x7F AND 0x80)" by (simp add: and.assoc)
  also have "(0x7F :: uint8_t) AND 0x80 = 0" by simp
  finally show ?thesis by simp
qed

lemma or_80_and_7F: "(0x80 OR ((w :: uint8_t) AND 0x7F)) AND 0x7F = w AND 0x7F"
  by (simp add: bit.conj_disj_distrib2 and.assoc)

lemma or_80_and_80: "(0x80 OR ((w :: uint8_t) AND 0x7F)) AND 0x80 = 0x80"
  by (simp add: bit.conj_disj_distrib2 and.assoc)

text \<open>
  Writing a threshold and reading it back keeps the low seven bits of the two's
  complement of the degrees and negates them for a negative threshold.
\<close>

lemma AlarmDecode_AlarmEncode:
  "AlarmDecode (AlarmEncode d) = (if 0 \<le> d then d mod 128 else - (d mod 128))"
  by (simp add: AlarmEncode_def AlarmDecode_def and_7F_and_80 or_80_and_7F or_80_and_80
      uint_and_7F uint_word_of_int mod_mod_cancel)

lemma Alarm_round_trip_nonneg:
  "0 \<le> d \<Longrightarrow> d \<le> 127 \<Longrightarrow> AlarmDecode (AlarmEncode d) = d"
  by (simp add: AlarmDecode_AlarmEncode)

lemma Alarm_round_trip_negative:
  "- 127 \<le> d \<Longrightarrow> d < 0 \<Longrightarrow> AlarmDecode (AlarmEncode d) = - (128 + d)"
  by (simp add: AlarmDecode_AlarmEncode) presburger

section \<open>Concrete runs\<close>

lemma line_bytes_bus_with:
  "length bytes = SCRATCHPAD_LENGTH \<Longrightarrow> line_bytes (bus_with m bytes addr) = bytes"
  by (erule nine_cells) (simp add: line_bytes_unfold bus_with_def)

lemma rom_match_bus_with: "rom_match (bus_with m bytes addr) a = m"
  by (simp add: bus_with_def)

lemma sample_pad_crc: "\<not> crc_mismatch xor_step sample_pad"
  by (simp add: crc_mismatch_def xor_step_def sample_pad_def)

lemma corrupt_pad_crc: "crc_mismatch xor_step corrupt_pad"
  by (simp add: crc_mismatch_def xor_step_def corrupt_pad_def)

lemma zero_pad_crc: "\<not> crc_mismatch xor_step zero_pad"
  by (simp add: crc_mismatch_def xor_step_def zero_pad_def)

lemma sample_pad_temperature: "spec_temperature sample_pad = - 725"
  by (simp add: spec_temperature_def sample_pad_def signed_divide_int_def)

text \<open>
  A search that fills an array of two cells, and the same search on an array of one
  cell, where the second store falls outside the array.
\<close>

lemma Search_two_found:
  "DS1820_Search [0, 0] 2 (bus_with 0 [] 5) =
     Inr (2, [5, 5],
       (bus_with 0 [] 5)
         \<lparr>calls := [Call_WeakPullUp, Call_SearchFirst 0, Call_SearchNext, Call_SearchNext,
                    Call_Reset],
          found_pos := 3\<rparr>)"
  by (simp add: DS1820_Search_def OW_SearchFirst_def OW_SearchNext_def OW_WeakPullUp_def
      OW_Reset_def Search_loop.simps [of _ 0 2] Search_loop.simps [of _ 1 2]
      Search_loop.simps [of _ 2 2] bus_with_def)

lemma Search_overrun: "DS1820_Search [0] 2 (bus_with 0 [] 5) = Inl OutOfBounds"
  by (simp add: DS1820_Search_def OW_SearchFirst_def OW_SearchNext_def OW_WeakPullUp_def
      OW_Reset_def Search_loop.simps [of _ 0 2] Search_loop.simps [of _ 1 2]
      Search_loop.simps [of _ 2 2] bus_with_def)


section \<open>Temperature decoding\<close>

text \<open>
  C1. For every 9-byte scratchpad whose CRC check passes and whose byte 7 is nonzero
  (the device having been selected), \<open>DS1820_TemperatureGet\<close> returns the two-stage
  fixed-point value: the base \<open>byte[0] * 500\<close> if byte 1 is zero and
  \<open>byte[0] * -500\<close> otherwise, plus the correction
  \<open>-250 + (1000 * (byte[7] - byte[6])) / byte[7]\<close>, the sum divided by 100, both
  divisions truncating toward zero. No 32-bit step of the C arithmetic wraps.
\<close>

theorem TemperatureGet_value:
  assumes selected: "rom_match b iAddress = 0"
    and crc_ok: "\<not> crc_mismatch crc (line_bytes b)"
    and divisor: "line_bytes b ! 7 \<noteq> 0"
  shows "DS1820_TemperatureGet crc iAddress b =
           Inr (spec_temperature (line_bytes b), bus_after_read iAddress b)"
  by (simp add: TemperatureGet_good_crc [OF selected crc_ok] TemperatureGet_calc_eq [OF divisor])

theorem TemperatureGet_value_witness:
  "rom_match (bus_with 0 sample_pad 0) 0 = 0
   \<and> \<not> crc_mismatch xor_step (line_bytes (bus_with 0 sample_pad 0))
   \<and> line_bytes (bus_with 0 sample_pad 0) ! 7 \<noteq> 0
   \<and> DS1820_TemperatureGet xor_step 0 (bus_with 0 sample_pad 0) =
       Inr (- 725, bus_after_read 0 (bus_with 0 sample_pad 0))"
proof -
  have pad: "line_bytes (bus_with 0 sample_pad 0) = sample_pad"
    by (rule line_bytes_bus_with) (simp add: sample_pad_def)
  have selected: "rom_match (bus_with 0 sample_pad 0) 0 = 0"
    by (rule rom_match_bus_with)
  have crc_ok: "\<not> crc_mismatch xor_step (line_bytes (bus_with 0 sample_pad 0))"
    by (simp add: pad sample_pad_crc)
  have divisor: "line_bytes (bus_with 0 sample_pad 0) ! 7 \<noteq> 0"
    by (simp add: pad) (simp add: sample_pad_def)
  from TemperatureGet_value [OF selected crc_ok divisor] selected crc_ok divisor
  show ?thesis by (simp add: pad sample_pad_temperature)
qed

text \<open>
  C2. The claim: for every scratchpad whose count-per-degree byte (byte 7) is zero,
  temperature decoding fails with an error and never performs the division by byte 7.
  The code has no such check: on a selected device whose scratchpad is all zeros (its CRC
  byte matching), \<open>DS1820_TemperatureGet\<close> reaches the division with a zero divisor and
  returns neither a temperature nor \<open>DS1820_TEMP_ERROR\<close>.
\<close>

theorem TemperatureGet_zero_divisor:
  "DS1820_TemperatureGet xor_step 0 (bus_with 0 zero_pad 0) = Inl DivideByZero"
proof -
  have pad: "line_bytes (bus_with 0 zero_pad 0) = zero_pad"
    by (rule line_bytes_bus_with) (simp add: zero_pad_def)
  have "TemperatureGet_calc zero_pad = Inl DivideByZero"
    by (rule TemperatureGet_calc_zero) (simp add: zero_pad_def)
  then show ?thesis
    by (simp add: TemperatureGet_good_crc rom_match_bus_with pad zero_pad_crc)
qed

text \<open>
  C9. For every 9-byte scratchpad with byte 7 nonzero, the calculation of
  \<open>DS1820_TemperatureGet\<close> yields a value, and that value is never the sentinel
  \<open>DS1820_TEMP_ERROR\<close> (-10000): it lies between -3827 and 3827.
\<close>

theorem TemperatureGet_calc_not_sentinel:
  assumes "length sp = SCRATCHPAD_LENGTH" and "sp ! 7 \<noteq> 0"
  shows "case TemperatureGet_calc sp of
           Inl f \<Rightarrow> False
         | Inr t \<Rightarrow> t \<noteq> state_value DS1820_TEMP_ERROR \<and> - 3827 \<le> t \<and> t \<le> 3827"
proof -
  have "TemperatureGet_calc sp = Inr (spec_temperature sp)"
    using assms(2) by (rule TemperatureGet_calc_eq)
  moreover have "- 3827 \<le> spec_temperature sp \<and> spec_temperature sp \<le> 3827"
    using spec_temperature_range [of sp] by linarith
  ultimately show ?thesis by simp
qed

theorem TemperatureGet_calc_not_sentinel_witness:
  "length sample_pad = SCRATCHPAD_LENGTH \<and> sample_pad ! 7 \<noteq> 0
   \<and> TemperatureGet_calc sample_pad = Inr (- 725)
   \<and> (- 725 :: int) \<noteq> state_value DS1820_TEMP_ERROR"
proof -
  have len: "length sample_pad = SCRATCHPAD_LENGTH" by (simp add: sample_pad_def)
  have divisor: "sample_pad ! 7 \<noteq> 0" by (simp add: sample_pad_def)
  have "TemperatureGet_calc sample_pad = Inr (- 725)"
    using TemperatureGet_calc_eq [OF divisor] by (simp add: sample_pad_temperature)
  with TemperatureGet_calc_not_sentinel [OF len divisor] len divisor
  show ?thesis by simp
qed


section \<open>Alarm thresholds\<close>

text \<open>
  C3. The claim: for every integer \<open>d\<close> in [-127, 127], decoding the threshold byte
  that \<open>DS1820_TemperatureAlarmSet\<close> writes for \<open>d\<close> with the conversion of
  \<open>DS1820_TemperatureAlarmGet\<close> gives back \<open>d\<close>. The code breaks it at \<open>d = -1\<close>:
  the byte written is the sign bit over the low seven bits of the two's complement of
  \<open>d\<close>, and it reads back as -127.
\<close>

theorem Alarm_round_trip_minus_one: "AlarmDecode (AlarmEncode (- 1)) = - 127"
  by (simp add: AlarmEncode_def AlarmDecode_def)

text \<open>
  C4. The claim: the threshold encoding gives 0x00 for 0, 0x81 for -1, 0x7F for 127 and
  0xFF for -127. The code gives 0x00 for 0 and 0x7F for 127, but 0xFF for -1 and 0x81 for
  -127.
\<close>

theorem AlarmEncode_boundaries:
  "AlarmEncode 0 = 0x00 \<and> AlarmEncode (- 1) = 0xFF \<and> AlarmEncode 127 = 0x7F
   \<and> AlarmEncode (- 127) = 0x81"
  by (simp add: AlarmEncode_def)

text \<open>
  C10. When \<open>DS1820_TemperatureAlarmGet\<close> fails, because the device selection fails or
  because the scratchpad CRC check fails, it returns \<open>DS1820_ERROR\<close> and the values
  behind \<open>iHigh\<close> and \<open>iLow\<close> are the ones the caller had; when it succeeds both outputs
  lie in [-127, 127].
\<close>

theorem AlarmGet_outputs:
  "(rom_match b iAddress \<noteq> 0 \<longrightarrow>
      DS1820_TemperatureAlarmGet crc iAddress iHigh iLow b =
        Inr (DS1820_ERROR, iHigh, iLow, bus_after_select iAddress b))
   \<and> (rom_match b iAddress = 0 \<and> crc_mismatch crc (line_bytes b) \<longrightarrow>
      DS1820_TemperatureAlarmGet crc iAddress iHigh iLow b =
        Inr (DS1820_ERROR, iHigh, iLow, bus_after_read iAddress b))
   \<and> (rom_match b iAddress = 0 \<and> \<not> crc_mismatch crc (line_bytes b) \<longrightarrow>
      DS1820_TemperatureAlarmGet crc iAddress iHigh iLow b =
        Inr (DS1820_OK, AlarmDecode (line_bytes b ! 3), AlarmDecode (line_bytes b ! 4),
             bus_after_read iAddress b)
      \<and> - 127 \<le> AlarmDecode (line_bytes b ! 3) \<and> AlarmDecode (line_bytes b ! 3) \<le> 127
      \<and> - 127 \<le> AlarmDecode (line_bytes b ! 4) \<and> AlarmDecode (line_bytes b ! 4) \<le> 127)"
  using AlarmDecode_range [of "line_bytes b ! 3"] AlarmDecode_range [of "line_bytes b ! 4"]
  by (simp add: AlarmGet_no_device AlarmGet_bad_crc AlarmGet_good_crc)

theorem AlarmGet_outputs_witness:
  "DS1820_TemperatureAlarmGet xor_step 0 5 (- 5) (bus_with 1 sample_pad 0) =
     Inr (DS1820_ERROR, 5, - 5, bus_after_select 0 (bus_with 1 sample_pad 0))
   \<and> DS1820_TemperatureAlarmGet xor_step 0 5 (- 5) (bus_with 0 corrupt_pad 0) =
     Inr (DS1820_ERROR, 5, - 5, bus_after_read 0 (bus_with 0 corrupt_pad 0))
   \<and> DS1820_TemperatureAlarmGet xor_step 0 5 (- 5) (bus_with 0 sample_pad 0) =
     Inr (DS1820_OK, 70, 127, bus_after_read 0 (bus_with 0 sample_pad 0))"
proof -
  have corrupt: "line_bytes (bus_with 0 corrupt_pad 0) = corrupt_pad"
    by (rule line_bytes_bus_with) (simp add: corrupt_pad_def)
  have sample: "line_bytes (bus_with 0 sample_pad 0) = sample_pad"
    by (rule line_bytes_bus_with) (simp add: sample_pad_def)
  have high: "AlarmDecode (sample_pad ! 3) = 70" and low: "AlarmDecode (sample_pad ! 4) = 127"
    by (simp_all add: sample_pad_def AlarmDecode_def)
  show ?thesis
    using AlarmGet_outputs [of "bus_with 1 sample_pad 0" 0 xor_step 5 "- 5"]
      AlarmGet_outputs [of "bus_with 0 corrupt_pad 0" 0 xor_step 5 "- 5"]
      AlarmGet_outputs [of "bus_with 0 sample_pad 0" 0 xor_step 5 "- 5"]
    by (simp add: rom_match_bus_with corrupt sample corrupt_pad_crc sample_pad_crc high low)
qed

section \<open>Failure paths\<close>

text \<open>
  C5. For every 9-byte sequence read from the bus, \<open>ScratchPadRead\<close> reports failure
  (returns 1 rather than 0) if and only if the CRC accumulated over bytes 0 to 7 in order,
  from accumulator 0 and without byte 8, differs from byte 8; on such a mismatch
  \<open>DS1820_TemperatureGet\<close> returns \<open>DS1820_TEMP_ERROR\<close> and
  \<open>DS1820_TemperatureAlarmGet\<close> returns \<open>DS1820_ERROR\<close> with its outputs untouched:
  neither result depends on the other eight bytes.
\<close>

theorem ScratchPadRead_crc_check:
  "(length Buffer = SCRATCHPAD_LENGTH \<longrightarrow>
      ScratchPadRead crc Buffer b =
        Inr ((if crc_mismatch crc (line_bytes b) then 1 else 0), line_bytes b,
             bus_after_scratchpad b))
   \<and> (rom_match b iAddress = 0 \<and> crc_mismatch crc (line_bytes b) \<longrightarrow>
      DS1820_TemperatureGet crc iAddress b =
        Inr (state_value DS1820_TEMP_ERROR, bus_after_read iAddress b)
      \<and> DS1820_TemperatureAlarmGet crc iAddress iHigh iLow b =
        Inr (DS1820_ERROR, iHigh, iLow, bus_after_read iAddress b))"
  by (simp add: ScratchPadRead_result TemperatureGet_bad_crc AlarmGet_bad_crc)

theorem ScratchPadRead_crc_check_witness:
  "ScratchPadRead xor_step zero_pad (bus_with 0 corrupt_pad 0) =
     Inr (1, corrupt_pad, bus_after_scratchpad (bus_with 0 corrupt_pad 0))
   \<and> ScratchPadRead xor_step zero_pad (bus_with 0 sample_pad 0) =
     Inr (0, sample_pad, bus_after_scratchpad (bus_with 0 sample_pad 0))
   \<and> DS1820_TemperatureGet xor_step 0 (bus_with 0 corrupt_pad 0) =
     Inr (- 10000, bus_after_read 0 (bus_with 0 corrupt_pad 0))
   \<and> DS1820_TemperatureAlarmGet xor_step 0 5 (- 5) (bus_with 0 corrupt_pad 0) =
     Inr (DS1820_ERROR, 5, - 5, bus_after_read 0 (bus_with 0 corrupt_pad 0))"
proof -
  have corrupt: "line_bytes (bus_with 0 corrupt_pad 0) = corrupt_pad"
    by (rule line_bytes_bus_with) (simp add: corrupt_pad_def)
  have sample: "line_bytes (bus_with 0 sample_pad 0) = sample_pad"
    by (rule line_bytes_bus_with) (simp add: sample_pad_def)
  have len: "length zero_pad = SCRATCHPAD_LENGTH"
    by (simp add: zero_pad_def)
  show ?thesis
    using ScratchPadRead_crc_check [of zero_pad xor_step "bus_with 0 corrupt_pad 0" 0 5 "- 5"]
      ScratchPadRead_crc_check [of zero_pad xor_step "bus_with 0 sample_pad 0" 0 5 "- 5"]
    by (simp add: len rom_match_bus_with corrupt sample corrupt_pad_crc sample_pad_crc)
qed

text \<open>
  C6. Whenever the device selection fails, and whenever the scratchpad CRC check fails,
  \<open>DS1820_TemperatureGet\<close> returns the same value \<open>DS1820_TEMP_ERROR\<close>: the returned
  value does not tell the two causes apart.
\<close>

theorem TemperatureGet_one_sentinel:
  "(rom_match b iAddress \<noteq> 0 \<longrightarrow>
      DS1820_TemperatureGet crc iAddress b =
        Inr (state_value DS1820_TEMP_ERROR, bus_after_select iAddress b))
   \<and> (rom_match b iAddress = 0 \<and> crc_mismatch crc (line_bytes b) \<longrightarrow>
      DS1820_TemperatureGet crc iAddress b =
        Inr (state_value DS1820_TEMP_ERROR, bus_after_read iAddress b))"
  by (simp add: TemperatureGet_no_device TemperatureGet_bad_crc)

theorem TemperatureGet_one_sentinel_witness:
  "DS1820_TemperatureGet xor_step 0 (bus_with 1 sample_pad 0) =
     Inr (- 10000, bus_after_select 0 (bus_with 1 sample_pad 0))
   \<and> DS1820_TemperatureGet xor_step 0 (bus_with 0 corrupt_pad 0) =
     Inr (- 10000, bus_after_read 0 (bus_with 0 corrupt_pad 0))"
proof -
  have corrupt: "line_bytes (bus_with 0 corrupt_pad 0) = corrupt_pad"
    by (rule line_bytes_bus_with) (simp add: corrupt_pad_def)
  show ?thesis
    using TemperatureGet_one_sentinel [of "bus_with 1 sample_pad 0" 0 xor_step]
      TemperatureGet_one_sentinel [of "bus_with 0 corrupt_pad 0" 0 xor_step]
    by (simp add: rom_match_bus_with corrupt corrupt_pad_crc)
qed

text \<open>
  C7. For every address for which the device selection reports no device present,
  \<open>DS1820_TemperatureConvert\<close> returns \<open>DS1820_ERROR\<close> and its only driver calls are the
  weak pull-up and the selection: the start-conversion command is not written and the
  strong pull-up is not set.
\<close>

theorem Convert_no_device:
  assumes "rom_match b iAddress = OW_NO_DEV"
  shows "DS1820_TemperatureConvert OW_NO_DEV iAddress b = (DS1820_ERROR, bus_after_select iAddress b)
    \<and> new_calls b (snd (DS1820_TemperatureConvert OW_NO_DEV iAddress b)) =
        [Call_WeakPullUp, Call_ROMMatch iAddress]
    \<and> Call_ByteWrite 0x44 \<notin> set (new_calls b (snd (DS1820_TemperatureConvert OW_NO_DEV iAddress b)))
    \<and> Call_StrongPullUp \<notin> set (new_calls b (snd (DS1820_TemperatureConvert OW_NO_DEV iAddress b)))"
  using assms
  by (simp add: DS1820_TemperatureConvert_def select_result new_calls_after_select)

theorem Convert_no_device_witness:
  "rom_match (bus_with 1 sample_pad 0) 7 = 1
   \<and> DS1820_TemperatureConvert 1 7 (bus_with 1 sample_pad 0) =
       (DS1820_ERROR, bus_after_select 7 (bus_with 1 sample_pad 0))
   \<and> calls (snd (DS1820_TemperatureConvert 1 7 (bus_with 1 sample_pad 0))) =
       [Call_WeakPullUp, Call_ROMMatch 7]"
proof -
  have absent: "rom_match (bus_with 1 sample_pad 0) 7 = 1"
    by (rule rom_match_bus_with)
  from Convert_no_device [OF absent] absent show ?thesis
    by (simp add: bus_after_select_def bus_with_def)
qed

section \<open>Discovery\<close>

text \<open>
  C8. The claim: \<open>DS1820_Search\<close> with capacity 0 returns count 0 without writing the
  array and without any search call before the final bus reset. The code calls
  \<open>OW_SearchFirst\<close> before it looks at the capacity. What holds: with capacity 0 the
  function returns count 0, leaves the array as it was, and makes exactly three driver
  calls: the weak pull-up, one \<open>OW_SearchFirst(0)\<close> and the bus reset; \<open>OW_SearchNext\<close> is
  not called and no byte is read or written.
\<close>

theorem Search_zero_calls:
  "DS1820_Search Addresses 0 b =
     Inr (0, Addresses,
          b\<lparr>calls := calls b @ [Call_WeakPullUp, Call_SearchFirst 0, Call_Reset],
            found_pos := Suc (found_pos b)\<rparr>)"
  by (simp add: DS1820_Search_def OW_SearchFirst_def OW_WeakPullUp_def OW_Reset_def
      Search_loop.simps [of _ 0 0])

theorem Search_zero_counterexample: "\<not> search_zero_silent [] (bus_with 0 [] 0)"
  by (simp add: search_zero_silent_def DS1820_Search_def OW_SearchFirst_def OW_WeakPullUp_def
      OW_Reset_def Search_loop.simps [of _ 0 0] new_calls_def bus_with_def)

end
